theory Spec2Isabelle
  imports Main "HOL-Library.Multiset"
begin

section \<open>The editing workflow of Indico: editables, revisions, permissions\<close>

text \<open>
  The development embeds \<^verbatim>\<open>indico/modules/events/editing/models/editable.py\<close>:
  the class \<^verbatim>\<open>Editable\<close> with its properties and permission predicates, and the
  column property \<^verbatim>\<open>Editable.state\<close> built in \<^verbatim>\<open>_mappers_configured\<close>.
  Database queries become list functions over the rows of an editable; the collaborators
  the class calls (\<^verbatim>\<open>event.can_manage\<close>, the contribution's predicates, the settings
  proxy) are fields holding functions; a Python exception is the \<open>Inl\<close> of a sum.
\<close>

subsection \<open>Enumerations\<close>

datatype EditableType = paper | slides | poster

text \<open>The integer value of an \<^verbatim>\<open>EditableType\<close> member (\<^verbatim>\<open>paper = 1\<close>, ...).\<close>

fun EditableType_value :: "EditableType \<Rightarrow> nat" where
  "EditableType_value paper = 1"
| "EditableType_value slides = 2"
| "EditableType_value poster = 3"

definition editor_permissions :: "string option list" where
  "editor_permissions =
     [None, Some ''paper_editing'', Some ''slides_editing'', Some ''poster_editing'']"

text \<open>\<^verbatim>\<open>self.__editor_permissions__[self]\<close>: the index is 1, 2 or 3, always in range.\<close>

definition editor_permission :: "EditableType \<Rightarrow> string option" where
  "editor_permission t = editor_permissions ! EditableType_value t"

datatype EditableState =
    EditableState_new
  | EditableState_ready_for_review
  | EditableState_needs_submitter_confirmation
  | EditableState_needs_submitter_changes
  | EditableState_accepted
  | EditableState_rejected
  | EditableState_accepted_submitter

text \<open>
  Modelled from the spec: the enumeration \<^verbatim>\<open>RevisionType\<close> is declared in
  \<^verbatim>\<open>revisions.py\<close>, which is not among the sources. Its members are the ten the data
  model of the spec lists; they are also the ten keys of the case table in
  \<^verbatim>\<open>_mappers_configured\<close>.
\<close>

datatype RevisionType =
    RevisionType_new
  | RevisionType_ready_for_review
  | RevisionType_needs_submitter_confirmation
  | RevisionType_changes_acceptance
  | RevisionType_changes_rejection
  | RevisionType_needs_submitter_changes
  | RevisionType_acceptance
  | RevisionType_rejection
  | RevisionType_replacement
  | RevisionType_reset

datatype error = AttributeError

subsection \<open>Data model\<close>

text \<open>A user is identified by its id; \<open>None\<close> is Python's \<^verbatim>\<open>None\<close> (no user).\<close>

type_synonym user = nat

record EditingRevisionFile =
  file_type_id :: int

record EditingRevision =
  rev_type :: RevisionType
  is_undone :: bool
  created_dt :: int
  files :: "EditingRevisionFile list"

record EditingFileType =
  ft_id :: int

record EditingReviewCondition =
  cond_type :: EditableType
  file_types :: "EditingFileType list"

text \<open>
  The event as the class uses it: \<^verbatim>\<open>can_manage(user, permission=None)\<close>, the settings
  \<^verbatim>\<open>editable_type_settings[type].get(event, key)\<close>, and the rows of
  \<^verbatim>\<open>EditingReviewCondition\<close> that belong to the event.
\<close>

record Event =
  can_manage :: "user option \<Rightarrow> string option \<Rightarrow> bool"
  type_settings :: "EditableType \<Rightarrow> string \<Rightarrow> bool"
  event_review_conditions :: "EditingReviewCondition list"

record Contribution =
  contribution_event :: Event
  can_submit_proceedings :: "user option \<Rightarrow> bool"
  is_user_associated :: "user option \<Rightarrow> bool \<Rightarrow> bool"

text \<open>
  \<open>revision_rows\<close> are the rows of \<^verbatim>\<open>event_editing.revisions\<close> whose
  \<^verbatim>\<open>editable_id\<close> is this editable, in storage order.
\<close>

record Editable =
  contribution :: Contribution
  etype :: EditableType
  editor :: "user option"
  revision_rows :: "EditingRevision list"

definition event :: "Editable \<Rightarrow> Event" where
  "event e = contribution_event (contribution e)"

subsection \<open>The revision log\<close>

text \<open>
  \<^verbatim>\<open>ORDER BY key\<close> and \<^verbatim>\<open>ORDER BY key DESC\<close>. Rows with equal keys keep their storage
  order here; the database leaves their order open.
\<close>

definition order_by :: "('a \<Rightarrow> int) \<Rightarrow> 'a list \<Rightarrow> 'a list" where
  "order_by k xs = sort_key k xs"

definition order_by_desc :: "('a \<Rightarrow> int) \<Rightarrow> 'a list \<Rightarrow> 'a list" where
  "order_by_desc k xs = sort_key (\<lambda>x. - k x) xs"

text \<open>\<^verbatim>\<open>Query.first()\<close>: the first row, or \<^verbatim>\<open>None\<close>.\<close>

definition first :: "'a list \<Rightarrow> 'a option" where
  "first xs = (case xs of [] \<Rightarrow> None | x # _ \<Rightarrow> Some x)"

text \<open>
  Modelled from the spec: the relationship \<^verbatim>\<open>Editable.revisions\<close> is a backref
  declared in \<^verbatim>\<open>revisions.py\<close>, which is not among the sources. The spec has the
  revisions of an editable ordered by creation timestamp, oldest first.
\<close>

definition revisions :: "Editable \<Rightarrow> EditingRevision list" where
  "revisions e = order_by created_dt (revision_rows e)"

definition valid_revisions :: "Editable \<Rightarrow> EditingRevision list" where
  "valid_revisions e = [r \<leftarrow> revisions e. \<not> is_undone r]"

definition latest_revision :: "Editable \<Rightarrow> EditingRevision option" where
  "latest_revision e =
     (if valid_revisions e \<noteq> [] then Some (last (valid_revisions e)) else None)"

text \<open>
  The inner join with \<^verbatim>\<open>EditingRevisionFile\<close> has one row for each pair of a revision
  and one of its files, so a revision without files has none.
\<close>

definition join_files :: "EditingRevision list \<Rightarrow> (EditingRevision \<times> EditingRevisionFile) list" where
  "join_files rs = concat (map (\<lambda>r. map (\<lambda>f. (r, f)) (files r)) rs)"

definition latest_revision_with_files :: "Editable \<Rightarrow> EditingRevision option" where
  "latest_revision_with_files e =
     map_option fst
       (first (order_by_desc (\<lambda>(r, f). created_dt r)
          (join_files [r \<leftarrow> revision_rows e. is_undone r = False])))"

subsection \<open>State derivation\<close>

text \<open>The dictionary given to \<^verbatim>\<open>db.case\<close>, in the order of the source.\<close>

definition state_cases :: "(RevisionType \<times> EditableState) list" where
  "state_cases =
     [(RevisionType_new, EditableState_new),
      (RevisionType_ready_for_review, EditableState_ready_for_review),
      (RevisionType_needs_submitter_confirmation, EditableState_needs_submitter_confirmation),
      (RevisionType_changes_acceptance, EditableState_accepted_submitter),
      (RevisionType_changes_rejection, EditableState_needs_submitter_changes),
      (RevisionType_needs_submitter_changes, EditableState_needs_submitter_changes),
      (RevisionType_acceptance, EditableState_accepted),
      (RevisionType_rejection, EditableState_rejected),
      (RevisionType_replacement, EditableState_ready_for_review),
      (RevisionType_reset, EditableState_ready_for_review)]"

text \<open>
  \<^verbatim>\<open>Editable.state\<close>: the scalar subquery selects the case expression over the
  revisions of the editable that are not undone, newest first, limited to one row.
  Without a row the subquery is NULL; a \<^verbatim>\<open>CASE\<close> without a matching key is NULL too.
\<close>

definition state :: "Editable \<Rightarrow> EditableState option" where
  "state e =
     (case first (order_by_desc created_dt [r \<leftarrow> revision_rows e. \<not> is_undone r]) of
        None \<Rightarrow> None
      | Some r \<Rightarrow> map_of state_cases (rev_type r))"

text \<open>The table of section 4.2 of the specification, line by line.\<close>

fun spec_state_table :: "RevisionType \<Rightarrow> EditableState" where
  "spec_state_table RevisionType_new = EditableState_new"
| "spec_state_table RevisionType_ready_for_review = EditableState_ready_for_review"
| "spec_state_table RevisionType_needs_submitter_confirmation =
     EditableState_needs_submitter_confirmation"
| "spec_state_table RevisionType_changes_acceptance = EditableState_accepted_submitter"
| "spec_state_table RevisionType_changes_rejection = EditableState_needs_submitter_changes"
| "spec_state_table RevisionType_needs_submitter_changes =
     EditableState_needs_submitter_changes"
| "spec_state_table RevisionType_acceptance = EditableState_accepted"
| "spec_state_table RevisionType_rejection = EditableState_rejected"
| "spec_state_table RevisionType_replacement = EditableState_ready_for_review"
| "spec_state_table RevisionType_reset = EditableState_ready_for_review"

subsection \<open>Permission predicates\<close>

definition has_general_editor_permissions :: "Editable \<Rightarrow> user option \<Rightarrow> bool" where
  "has_general_editor_permissions e u =
     (can_manage (event e) u (Some ''editing_manager'') \<or>
      can_manage (event e) u (editor_permission (etype e)))"

definition can_see_timeline :: "Editable \<Rightarrow> user option \<Rightarrow> bool" where
  "can_see_timeline e u =
     (has_general_editor_permissions e u \<or>
      can_submit_proceedings (contribution e) u \<or>
      is_user_associated (contribution e) u True)"

definition can_perform_submitter_actions :: "Editable \<Rightarrow> user option \<Rightarrow> bool" where
  "can_perform_submitter_actions e u =
     (if \<not> can_see_timeline e u then False
      else can_submit_proceedings (contribution e) u)"

definition can_perform_editor_actions :: "Editable \<Rightarrow> user option \<Rightarrow> bool" where
  "can_perform_editor_actions e u =
     (if \<not> can_see_timeline e u then False
      else if editor e = u \<and> can_manage (event e) u (Some ''editing_manager'') then True
      else if \<not> type_settings (event e) (etype e) ''editing_enabled'' then False
      else if editor e = u \<and> can_manage (event e) u (editor_permission (etype e)) then True
      else False)"

definition can_use_internal_comments :: "Editable \<Rightarrow> user option \<Rightarrow> bool" where
  "can_use_internal_comments e u = has_general_editor_permissions e u"

definition can_see_restricted_revisions :: "Editable \<Rightarrow> user option \<Rightarrow> bool" where
  "can_see_restricted_revisions e u = has_general_editor_permissions e u"

text \<open>
  \<^verbatim>\<open>can_see_editor_names(user, actor=None)\<close>. The recursive call passes no actor, so
  the recursion is on the actor and ends after one step.
\<close>

function can_see_editor_names :: "Editable \<Rightarrow> user option \<Rightarrow> user option \<Rightarrow> bool" where
  "can_see_editor_names e u None =
     (\<not> type_settings (event e) (etype e) ''anonymous_team'' \<or>
      has_general_editor_permissions e u)"
| "can_see_editor_names e u (Some actor) =
     (\<not> type_settings (event e) (etype e) ''anonymous_team'' \<or>
      \<not> can_see_editor_names e (Some actor) None \<or>
      has_general_editor_permissions e u)"
  by pat_completeness auto
termination
  by (relation "measure (\<lambda>(e, u, actor). case actor of None \<Rightarrow> 0 | Some _ \<Rightarrow> 1)") auto

definition can_comment :: "Editable \<Rightarrow> user option \<Rightarrow> bool" where
  "can_comment e u =
     (can_manage (event e) u (editor_permission (etype e)) \<or>
      can_manage (event e) u (Some ''editing_manager'') \<or>
      is_user_associated (contribution e) u True)"

definition can_unassign :: "Editable \<Rightarrow> user option \<Rightarrow> bool" where
  "can_unassign e u =
     (can_manage (event e) u (Some ''editing_manager'') \<or>
      (editor e = u \<and>
       can_manage (event e) u (editor_permission (etype e)) \<and>
       type_settings (event e) (etype e) ''editing_enabled'' \<and>
       type_settings (event e) (etype e) ''self_assign_allowed''))"

definition can_assign_self :: "Editable \<Rightarrow> user option \<Rightarrow> bool" where
  "can_assign_self e u =
     (if editor e \<noteq> None \<and> (editor e = u \<or> \<not> can_unassign e u) then False
      else ((can_manage (event e) u (editor_permission (etype e)) \<and>
             type_settings (event e) (etype e) ''editing_enabled'' \<and>
             type_settings (event e) (etype e) ''self_assign_allowed'') \<or>
            can_manage (event e) u (Some ''editing_manager'')))"

definition can_delete :: "Editable \<Rightarrow> user option \<Rightarrow> bool" where
  "can_delete e u = can_manage (event e) u None"

definition editing_enabled :: "Editable \<Rightarrow> bool" where
  "editing_enabled e = type_settings (event e) (etype e) ''editing_enabled''"

subsection \<open>Review conditions\<close>

text \<open>
  \<^verbatim>\<open>review_conditions_valid\<close>. The attribute access
  \<^verbatim>\<open>self.latest_revision_with_files.files\<close> raises \<^verbatim>\<open>AttributeError\<close> when the
  query found no revision.
\<close>

definition review_conditions_valid :: "Editable \<Rightarrow> error + bool" where
  "review_conditions_valid e =
     (let query = [cond \<leftarrow> event_review_conditions (event e). cond_type cond = etype e];
          review_conditions = map (\<lambda>cond. set (map ft_id (file_types cond))) query
      in if review_conditions = [] then Inr True
         else case latest_revision_with_files e of
                None \<Rightarrow> Inl AttributeError
              | Some r \<Rightarrow>
                  (let file_types = set (map file_type_id (files r))
                   in Inr (list_ex (\<lambda>cond. cond \<subseteq> file_types) review_conditions)))"

subsection \<open>Example data\<close>

text \<open>
  An event with an editing manager (user 1) and a paper editor (user 2), a contribution
  with a submitter (user 3) and a further associated person (user 4), and a paper
  editable without editor and without revisions. The event has two review conditions
  for papers: the file types 1 and 2, or the file type 3.
\<close>

definition example_event :: Event where
  "example_event =
     \<lparr>can_manage = (\<lambda>u p. (u = Some 1 \<and> p = Some ''editing_manager'') \<or>
                           (u = Some 2 \<and> p = Some ''paper_editing'')),
      type_settings = (\<lambda>t k. False),
      event_review_conditions =
        [\<lparr>cond_type = paper, file_types = [\<lparr>ft_id = 1\<rparr>, \<lparr>ft_id = 2\<rparr>]\<rparr>,
         \<lparr>cond_type = paper, file_types = [\<lparr>ft_id = 3\<rparr>]\<rparr>]\<rparr>"

definition example_contribution :: Contribution where
  "example_contribution =
     \<lparr>contribution_event = example_event,
      can_submit_proceedings = (\<lambda>u. u = Some 3),
      is_user_associated = (\<lambda>u check_abstract. u = Some 3 \<or> u = Some 4)\<rparr>"

definition example_editable :: Editable where
  "example_editable =
     \<lparr>contribution = example_contribution, etype = paper, editor = None, revision_rows = []\<rparr>"

text \<open>The same editable with given settings for its type and a given editor.\<close>

definition example_editable_with :: "(string \<Rightarrow> bool) \<Rightarrow> user option \<Rightarrow> Editable" where
  "example_editable_with settings ed =
     \<lparr>contribution =
        example_contribution\<lparr>contribution_event :=
          example_event\<lparr>type_settings := (\<lambda>t. settings)\<rparr>\<rparr>,
      etype = paper, editor = ed, revision_rows = []\<rparr>"

definition revision :: "RevisionType \<Rightarrow> bool \<Rightarrow> int \<Rightarrow> int list \<Rightarrow> EditingRevision" where
  "revision t undone dt fts =
     \<lparr>rev_type = t, is_undone = undone, created_dt = dt,
      files = map (\<lambda>i. \<lparr>file_type_id = i\<rparr>) fts\<rparr>"

text \<open>
The example editable with a given list of stored revisions.
\<close>

definition example_log :: "EditingRevision list \<Rightarrow> Editable" where
  "example_log rs = example_editable\<lparr>revision_rows := rs\<rparr>"

section \<open>Properties\<close>

subsection \<open>Ordering and the revision log\<close>

lemmas example_defs =
  example_editable_def example_editable_with_def example_contribution_def example_event_def revision_def event_def

lemmas log_defs =
  valid_revisions_def revisions_def order_by_def order_by_desc_def first_def
  latest_revision_def state_def state_cases_def

lemmas perm_defs =
  has_general_editor_permissions_def can_see_timeline_def can_perform_submitter_actions_def
  can_perform_editor_actions_def can_use_internal_comments_def
  can_see_restricted_revisions_def can_comment_def can_unassign_def can_assign_self_def
  can_delete_def editor_permission_def editor_permissions_def

lemma event_revision_rows [simp]: "event (e\<lparr>revision_rows := rs\<rparr>) = event e"
  by (simp add: event_def)

lemma first_eq_None: "first xs = None \<longleftrightarrow> xs = []"
  by (cases xs) (simp_all add: first_def)

lemma first_order_by_desc:
  assumes "first (order_by_desc k xs) = Some y"
  shows "y \<in> set xs" and "\<forall>x\<in>set xs. k x \<le> k y"
proof -
  from assms obtain ys where ys: "sort_key (\<lambda>x. - k x) xs = y # ys"
    by (auto simp: first_def order_by_desc_def split: list.splits)
  have "set (y # ys) = set xs"
    using ys set_sort [of "\<lambda>x. - k x" xs] by simp
  then show "y \<in> set xs" by auto
  have "sorted (map (\<lambda>x. - k x) (y # ys))"
    using ys sorted_sort_key [of "\<lambda>x. - k x" xs] by simp
  then have "\<forall>x\<in>set (y # ys). k x \<le> k y"
    by auto
  with \<open>set (y # ys) = set xs\<close> show "\<forall>x\<in>set xs. k x \<le> k y"
    by simp
qed

lemma sorted_map_last:
  "sorted (map k ys) \<Longrightarrow> x \<in> set ys \<Longrightarrow> k x \<le> k (last ys)"
  by (induction ys) (auto split: if_splits)

lemma last_order_by:
  assumes "xs \<noteq> []"
  shows "last (order_by k xs) \<in> set xs" and "\<forall>x\<in>set xs. k x \<le> k (last (order_by k xs))"
proof -
  have ne: "order_by k xs \<noteq> []"
    using assms by (metis length_0_conv length_sort order_by_def)
  then have "last (order_by k xs) \<in> set (order_by k xs)"
    by (rule last_in_set)
  then show "last (order_by k xs) \<in> set xs"
    by (simp add: order_by_def)
  have "sorted (map k (order_by k xs))"
    by (simp add: order_by_def)
  then show "\<forall>x\<in>set xs. k x \<le> k (last (order_by k xs))"
    using sorted_map_last [of k "order_by k xs"] by (simp add: order_by_def)
qed

lemma valid_revisions_rows:
  "valid_revisions e = order_by created_dt [r \<leftarrow> revision_rows e. \<not> is_undone r]"
  by (simp add: valid_revisions_def revisions_def order_by_def filter_sort)

lemma set_valid_revisions:
  "set (valid_revisions e) = {r \<in> set (revision_rows e). \<not> is_undone r}"
  by (simp add: valid_revisions_rows order_by_def)

lemma valid_revisions_empty:
  "valid_revisions e = [] \<longleftrightarrow> [r \<leftarrow> revision_rows e. \<not> is_undone r] = []"
  by (metis valid_revisions_rows order_by_def length_0_conv length_sort)

lemma state_cases_total: "map_of state_cases t = Some (spec_state_table t)"
  by (cases t) (simp_all add: state_cases_def)

subsection \<open>State derivation\<close>

text \<open>
  Claim C1, amended. For every editable with at least one valid (not undone) revision,
  the latest revision has the greatest creation time among the valid revisions, and the
  derived state is the table of the specification applied to the type of a valid
  revision with that creation time. The state is the table applied to the type of the
  latest revision itself whenever every valid revision with that creation time has the
  type of the latest revision, in particular when no other valid revision shares the
  greatest creation time. The case dictionary of the source agrees with the table on
  all ten revision types, the two-to-one collapses included.
\<close>

theorem state_of_latest_valid_revision:
  assumes "valid_revisions e \<noteq> []"
  shows "\<exists>l. latest_revision e = Some l \<and>
             (\<forall>r\<in>set (valid_revisions e). created_dt r \<le> created_dt l) \<and>
             (\<exists>r\<in>set (valid_revisions e).
                created_dt r = created_dt l \<and> state e = Some (spec_state_table (rev_type r))) \<and>
             ((\<forall>r\<in>set (valid_revisions e).
                 created_dt r = created_dt l \<longrightarrow> rev_type r = rev_type l) \<longrightarrow>
              state e = Some (spec_state_table (rev_type l)))"
proof -
  let ?vs = "[r \<leftarrow> revision_rows e. \<not> is_undone r]"
  let ?l = "last (valid_revisions e)"
  have ne: "?vs \<noteq> []"
    using assms by (simp add: valid_revisions_empty)
  then have "order_by_desc created_dt ?vs \<noteq> []"
    by (metis order_by_desc_def length_0_conv length_sort)
  then obtain r where r: "first (order_by_desc created_dt ?vs) = Some r"
    by (cases "order_by_desc created_dt ?vs") (simp_all add: first_def)
  have sets: "set (valid_revisions e) = set ?vs"
    by (simp add: valid_revisions_rows order_by_def)
  have mem: "r \<in> set (valid_revisions e)"
    using first_order_by_desc(1) [OF r] sets by simp
  have top: "\<forall>r'\<in>set (valid_revisions e). created_dt r' \<le> created_dt r"
    using first_order_by_desc(2) [OF r] sets by simp
  have st: "state e = Some (spec_state_table (rev_type r))"
    using r by (simp add: state_def state_cases_total)
  have latest: "latest_revision e = Some ?l"
    using assms by (simp add: latest_revision_def)
  have l_mem: "?l \<in> set (valid_revisions e)"
    using assms by (rule last_in_set)
  have l_top: "\<forall>r'\<in>set (valid_revisions e). created_dt r' \<le> created_dt ?l"
    using last_order_by(2) [OF ne, of created_dt] sets
    by (simp add: valid_revisions_rows)
  have same: "created_dt r = created_dt ?l"
    using top l_top mem l_mem by (meson order_antisym)
  have unique: "state e = Some (spec_state_table (rev_type ?l))"
    if "\<forall>r'\<in>set (valid_revisions e).
          created_dt r' = created_dt ?l \<longrightarrow> rev_type r' = rev_type ?l"
    using that mem same st by simp
  from latest l_top mem same st unique show ?thesis
    by blast
qed

theorem state_of_latest_valid_revision_witness:
  "valid_revisions (example_log
       [revision RevisionType_new False 1 [],
        revision RevisionType_ready_for_review False 1 [1],
        revision RevisionType_acceptance False 2 []]) \<noteq> [] \<and>
   latest_revision (example_log
       [revision RevisionType_new False 1 [],
        revision RevisionType_ready_for_review False 1 [1],
        revision RevisionType_acceptance False 2 []])
     = Some (revision RevisionType_acceptance False 2 []) \<and>
   state (example_log
       [revision RevisionType_new False 1 [],
        revision RevisionType_ready_for_review False 1 [1],
        revision RevisionType_acceptance False 2 []])
     = Some EditableState_accepted"
proof -
  let ?a = "revision RevisionType_acceptance False 2 []"
  let ?e = "example_log
       [revision RevisionType_new False 1 [],
        revision RevisionType_ready_for_review False 1 [1], ?a]"
  have vs: "valid_revisions ?e =
      [revision RevisionType_new False 1 [],
       revision RevisionType_ready_for_review False 1 [1], ?a]"
    by (simp add: example_log_def valid_revisions_def revisions_def order_by_def revision_def)
  have h: "valid_revisions ?e \<noteq> []"
    by (simp add: vs)
  have l: "latest_revision ?e = Some ?a"
    by (simp add: latest_revision_def vs)
  from state_of_latest_valid_revision [OF h] obtain l' where
    l': "latest_revision ?e = Some l'" and
    imp: "(\<forall>r\<in>set (valid_revisions ?e).
             created_dt r = created_dt l' \<longrightarrow> rev_type r = rev_type l') \<longrightarrow>
          state ?e = Some (spec_state_table (rev_type l'))"
    by blast
  from l l' have eq: "l' = ?a"
    by simp
  have "\<forall>r\<in>set (valid_revisions ?e). created_dt r = created_dt ?a \<longrightarrow> rev_type r = rev_type ?a"
    unfolding vs by (simp add: revision_def)
  with imp eq have "state ?e = Some (spec_state_table (rev_type ?a))"
    by simp
  then have "state ?e = Some EditableState_accepted"
    by (simp add: revision_def)
  with h l show ?thesis
    by simp
qed

text \<open>
  Claim C1 as stated, without a condition on the creation times, fails: when a
  \<open>ready_for_review\<close> revision and an \<open>acceptance\<close> revision are both valid and have the
  same creation time, the latest revision is the acceptance, for which the table gives
  \<open>accepted\<close>, while the state is \<open>ready_for_review\<close>.
\<close>

theorem state_of_latest_valid_revision_counterexample:
  "valid_revisions (example_log
       [revision RevisionType_ready_for_review False 1 [1],
        revision RevisionType_acceptance False 1 []]) \<noteq> [] \<and>
   latest_revision (example_log
       [revision RevisionType_ready_for_review False 1 [1],
        revision RevisionType_acceptance False 1 []])
     = Some (revision RevisionType_acceptance False 1 []) \<and>
   spec_state_table (rev_type (revision RevisionType_acceptance False 1 []))
     = EditableState_accepted \<and>
   state (example_log
       [revision RevisionType_ready_for_review False 1 [1],
        revision RevisionType_acceptance False 1 []])
     = Some EditableState_ready_for_review"
  by (simp add: example_log_def revision_def valid_revisions_def revisions_def order_by_def
        latest_revision_def state_def order_by_desc_def first_def state_cases_def)

text \<open>
  The example of the specification: the log \<open>new\<close>, \<open>ready_for_review\<close>,
  \<open>needs_submitter_changes\<close>, none undone.
\<close>

lemma state_of_latest_revision_spec_example:
  "state (example_log
       [revision RevisionType_new False 1 [],
        revision RevisionType_ready_for_review False 2 [1],
        revision RevisionType_needs_submitter_changes False 3 []])
     = Some EditableState_needs_submitter_changes"
  by (simp add: example_log_def revision_def state_def order_by_desc_def first_def
        state_cases_def)

subsection \<open>The valid revisions\<close>

lemma state_filter_rows:
  "state (e\<lparr>revision_rows := [r \<leftarrow> revision_rows e. \<not> is_undone r]\<rparr>) = state e"
  by (simp add: state_def)

lemma latest_revision_filter_rows:
  "latest_revision (e\<lparr>revision_rows := [r \<leftarrow> revision_rows e. \<not> is_undone r]\<rparr>) =
   latest_revision e"
  by (simp add: latest_revision_def valid_revisions_rows)

text \<open>
  Claim C4. The valid revisions are exactly the revisions that are not undone (as a
  multiset of the ordered revisions, and as a set of the stored rows), oldest first by
  creation time; \<open>latest_revision\<close> is the same with the undone rows removed; and for
  the log of a \<open>ready_for_review\<close> revision followed by an undone \<open>acceptance\<close>, the
  latest revision is the first one and the state is \<open>ready_for_review\<close>.
\<close>

theorem valid_revisions_creation_order:
  "mset (valid_revisions e) = {#r \<in># mset (revisions e). \<not> is_undone r#} \<and>
   set (valid_revisions e) = {r \<in> set (revision_rows e). \<not> is_undone r} \<and>
   sorted (map created_dt (valid_revisions e)) \<and>
   latest_revision (e\<lparr>revision_rows := [r \<leftarrow> revision_rows e. \<not> is_undone r]\<rparr>) =
     latest_revision e \<and>
   (rev_type r1 = RevisionType_ready_for_review \<and> \<not> is_undone r1 \<and>
    rev_type r2 = RevisionType_acceptance \<and> is_undone r2 \<longrightarrow>
      latest_revision (e\<lparr>revision_rows := [r1, r2]\<rparr>) = Some r1 \<and>
      state (e\<lparr>revision_rows := [r1, r2]\<rparr>) = Some EditableState_ready_for_review)"
proof -
  have "mset (valid_revisions e) = {#r \<in># mset (revisions e). \<not> is_undone r#}"
    by (simp add: valid_revisions_def)
  moreover have "sorted (map created_dt (valid_revisions e))"
    by (simp add: valid_revisions_rows order_by_def)
  moreover have "latest_revision (e\<lparr>revision_rows := [r1, r2]\<rparr>) = Some r1 \<and>
      state (e\<lparr>revision_rows := [r1, r2]\<rparr>) = Some EditableState_ready_for_review"
    if "rev_type r1 = RevisionType_ready_for_review" "\<not> is_undone r1" "is_undone r2"
    using that by (simp add: log_defs)
  ultimately show ?thesis
    using set_valid_revisions [of e] latest_revision_filter_rows [of e] by blast
qed

theorem valid_revisions_creation_order_witness:
  "rev_type (revision RevisionType_ready_for_review False 1 [1]) = RevisionType_ready_for_review \<and>
   \<not> is_undone (revision RevisionType_ready_for_review False 1 [1]) \<and>
   rev_type (revision RevisionType_acceptance True 2 []) = RevisionType_acceptance \<and>
   is_undone (revision RevisionType_acceptance True 2 []) \<and>
   state (example_editable\<lparr>revision_rows :=
     [revision RevisionType_ready_for_review False 1 [1],
      revision RevisionType_acceptance True 2 []]\<rparr>) = Some EditableState_ready_for_review \<and>
   valid_revisions (example_editable\<lparr>revision_rows :=
     [revision RevisionType_acceptance True 2 [],
      revision RevisionType_ready_for_review False 3 [1],
      revision RevisionType_new False 1 []]\<rparr>) =
     [revision RevisionType_new False 1 [], revision RevisionType_ready_for_review False 3 [1]]"
  using valid_revisions_creation_order [of example_editable
      "revision RevisionType_ready_for_review False 1 [1]"
      "revision RevisionType_acceptance True 2 []"]
  by (simp add: revision_def log_defs)

subsection \<open>Review conditions\<close>

text \<open>
  Claim C3. When no review condition is configured for the type of the editable,
  \<open>review_conditions_valid\<close> returns true, whatever revisions and files the editable has.
\<close>

theorem review_conditions_valid_no_conditions:
  assumes "[cond \<leftarrow> event_review_conditions (event e). cond_type cond = etype e] = []"
  shows "review_conditions_valid (e\<lparr>revision_rows := rs\<rparr>) = Inr True"
  using assms by (simp add: review_conditions_valid_def)

theorem review_conditions_valid_no_conditions_witness:
  "[cond \<leftarrow> event_review_conditions (event (example_editable\<lparr>etype := slides\<rparr>)).
      cond_type cond = etype (example_editable\<lparr>etype := slides\<rparr>)] = [] \<and>
   review_conditions_valid (example_editable\<lparr>etype := slides, revision_rows := []\<rparr>) = Inr True \<and>
   review_conditions_valid (example_editable\<lparr>etype := slides,
      revision_rows := [revision RevisionType_ready_for_review False 1 [1, 4]]\<rparr>) = Inr True"
  using review_conditions_valid_no_conditions [of "example_editable\<lparr>etype := slides\<rparr>" "[]"]
    review_conditions_valid_no_conditions [of "example_editable\<lparr>etype := slides\<rparr>"
      "[revision RevisionType_ready_for_review False 1 [1, 4]]"]
  by (simp add: example_defs)

lemma join_files_empty:
  "join_files rs = [] \<longleftrightarrow> (\<forall>r\<in>set rs. files r = [])"
  by (simp add: join_files_def)

text \<open>
  Claim C2 says that \<open>review_conditions_valid\<close> never raises and takes the empty set of
  file types when no revision with files exists. The code differs: when a condition is
  configured for the type and every revision is undone or has no file, the query for the
  latest revision with files finds nothing and the access to its files raises
  \<^verbatim>\<open>AttributeError\<close>.
\<close>

theorem review_conditions_valid_raises:
  assumes "[cond \<leftarrow> event_review_conditions (event e). cond_type cond = etype e] \<noteq> []"
    and "\<forall>r\<in>set (revision_rows e). is_undone r \<or> files r = []"
  shows "review_conditions_valid e = Inl AttributeError"
proof -
  have "join_files [r \<leftarrow> revision_rows e. is_undone r = False] = []"
    using assms(2) by (auto simp: join_files_empty)
  then have "latest_revision_with_files e = None"
    by (simp add: latest_revision_with_files_def order_by_desc_def first_def)
  with assms(1) show ?thesis
    by (simp add: review_conditions_valid_def)
qed

theorem review_conditions_valid_raises_witness:
  "[cond \<leftarrow> event_review_conditions (event example_editable).
      cond_type cond = etype example_editable] \<noteq> [] \<and>
   revision_rows example_editable = [] \<and>
   review_conditions_valid example_editable = Inl AttributeError"
  using review_conditions_valid_raises [of example_editable]
  by (simp add: example_defs)

text \<open>
  The example of the specification: with the conditions \<open>{1, 2}\<close> and \<open>{3}\<close>, the file
  types \<open>{3, 4}\<close> satisfy the conditions and \<open>{1, 4}\<close> do not.
\<close>

lemma review_conditions_valid_example_true:
  "review_conditions_valid (example_editable\<lparr>revision_rows :=
      [revision RevisionType_ready_for_review False 1 [3, 4]]\<rparr>) = Inr True"
  by (simp add: example_defs review_conditions_valid_def latest_revision_with_files_def
        join_files_def order_by_desc_def first_def)

lemma review_conditions_valid_example_false:
  "review_conditions_valid (example_editable\<lparr>revision_rows :=
      [revision RevisionType_ready_for_review False 1 [1, 4]]\<rparr>) = Inr False"
  by (simp add: example_defs review_conditions_valid_def latest_revision_with_files_def
        join_files_def order_by_desc_def first_def)

subsection \<open>Editables without valid revisions\<close>

lemma can_see_editor_names_revision_rows:
  "can_see_editor_names (e\<lparr>revision_rows := rs\<rparr>) u actor = can_see_editor_names e u actor"
  by (cases actor) (simp_all add: has_general_editor_permissions_def)

text \<open>
  Claim C5. For an editable without valid revisions the state and the latest revision
  are absent, while every permission predicate is defined and does not depend on the
  revisions: replacing the revisions of the editable by any others leaves each predicate
  unchanged, so it is determined by the roles and the settings alone.
\<close>

theorem no_valid_revisions:
  assumes "valid_revisions e = []"
  shows "state e = None \<and> latest_revision e = None \<and>
    (\<forall>u actor rs.
       can_see_timeline (e\<lparr>revision_rows := rs\<rparr>) u = can_see_timeline e u \<and>
       can_perform_submitter_actions (e\<lparr>revision_rows := rs\<rparr>) u =
         can_perform_submitter_actions e u \<and>
       can_perform_editor_actions (e\<lparr>revision_rows := rs\<rparr>) u =
         can_perform_editor_actions e u \<and>
       can_use_internal_comments (e\<lparr>revision_rows := rs\<rparr>) u =
         can_use_internal_comments e u \<and>
       can_see_restricted_revisions (e\<lparr>revision_rows := rs\<rparr>) u =
         can_see_restricted_revisions e u \<and>
       can_see_editor_names (e\<lparr>revision_rows := rs\<rparr>) u actor =
         can_see_editor_names e u actor \<and>
       can_comment (e\<lparr>revision_rows := rs\<rparr>) u = can_comment e u \<and>
       can_assign_self (e\<lparr>revision_rows := rs\<rparr>) u = can_assign_self e u \<and>
       can_unassign (e\<lparr>revision_rows := rs\<rparr>) u = can_unassign e u \<and>
       can_delete (e\<lparr>revision_rows := rs\<rparr>) u = can_delete e u)"
proof -
  have "[r \<leftarrow> revision_rows e. \<not> is_undone r] = []"
    using assms by (simp add: valid_revisions_empty)
  then have st: "state e = None"
    by (simp add: state_def order_by_desc_def first_def)
  have lr: "latest_revision e = None"
    using assms by (simp add: latest_revision_def)
  have perms: "can_see_timeline (e\<lparr>revision_rows := rs\<rparr>) u = can_see_timeline e u"
    "can_perform_submitter_actions (e\<lparr>revision_rows := rs\<rparr>) u =
       can_perform_submitter_actions e u"
    "can_perform_editor_actions (e\<lparr>revision_rows := rs\<rparr>) u =
       can_perform_editor_actions e u"
    "can_use_internal_comments (e\<lparr>revision_rows := rs\<rparr>) u = can_use_internal_comments e u"
    "can_see_restricted_revisions (e\<lparr>revision_rows := rs\<rparr>) u =
       can_see_restricted_revisions e u"
    "can_comment (e\<lparr>revision_rows := rs\<rparr>) u = can_comment e u"
    "can_assign_self (e\<lparr>revision_rows := rs\<rparr>) u = can_assign_self e u"
    "can_unassign (e\<lparr>revision_rows := rs\<rparr>) u = can_unassign e u"
    "can_delete (e\<lparr>revision_rows := rs\<rparr>) u = can_delete e u" for u rs
    by (simp_all add: perm_defs)
  show ?thesis
    by (intro conjI allI) (rule st lr perms can_see_editor_names_revision_rows)+
qed

theorem no_valid_revisions_witness:
  "valid_revisions (example_editable\<lparr>revision_rows := [revision RevisionType_new True 1 []]\<rparr>) = [] \<and>
   state (example_editable\<lparr>revision_rows := [revision RevisionType_new True 1 []]\<rparr>) = None \<and>
   latest_revision (example_editable\<lparr>revision_rows := [revision RevisionType_new True 1 []]\<rparr>) = None \<and>
   can_perform_submitter_actions
     (example_editable\<lparr>revision_rows := [revision RevisionType_new True 1 []]\<rparr>) (Some 3)"
proof -
  let ?e = "example_editable\<lparr>revision_rows := [revision RevisionType_new True 1 []]\<rparr>"
  have h: "valid_revisions ?e = []"
    by (simp add: valid_revisions_def revisions_def order_by_def revision_def)
  note inst = no_valid_revisions [OF h]
  have "can_perform_submitter_actions (?e\<lparr>revision_rows := []\<rparr>) (Some 3)"
    by (simp add: example_defs perm_defs)
  then have "can_perform_submitter_actions ?e (Some 3)"
    using inst by blast
  with h inst show ?thesis
    by blast
qed

subsection \<open>Permission predicates\<close>

text \<open>
  Claim C6. \<open>can_perform_editor_actions\<close> is false for a user who cannot see the
  timeline; it is true for the assigned editor with the \<open>editing_manager\<close> permission,
  whatever \<open>editing_enabled\<close> is; otherwise it is true exactly when \<open>editing_enabled\<close>
  is set, the user is the assigned editor and has the editor permission of the type.
\<close>

theorem can_perform_editor_actions_cases:
  "(\<not> can_see_timeline e u \<longrightarrow> \<not> can_perform_editor_actions e u) \<and>
   (editor e = u \<and> can_manage (event e) u (Some ''editing_manager'') \<longrightarrow>
      can_perform_editor_actions e u) \<and>
   (\<not> (editor e = u \<and> can_manage (event e) u (Some ''editing_manager'')) \<longrightarrow>
      can_perform_editor_actions e u =
        (type_settings (event e) (etype e) ''editing_enabled'' \<and> editor e = u \<and>
         can_manage (event e) u (editor_permission (etype e))))"
  by (auto simp: can_perform_editor_actions_def can_see_timeline_def
        has_general_editor_permissions_def)

theorem can_perform_editor_actions_cases_witness:
  "\<not> can_see_timeline (example_editable_with (\<lambda>k. True) (Some 5)) (Some 5) \<and>
   \<not> can_perform_editor_actions (example_editable_with (\<lambda>k. True) (Some 5)) (Some 5) \<and>
   editor (example_editable_with (\<lambda>k. False) (Some 1)) = Some 1 \<and>
   can_manage (event (example_editable_with (\<lambda>k. False) (Some 1))) (Some 1)
     (Some ''editing_manager'') \<and>
   \<not> type_settings (event (example_editable_with (\<lambda>k. False) (Some 1))) paper ''editing_enabled'' \<and>
   can_perform_editor_actions (example_editable_with (\<lambda>k. False) (Some 1)) (Some 1) \<and>
   \<not> can_manage (event (example_editable_with (\<lambda>k. True) (Some 2))) (Some 2)
     (Some ''editing_manager'') \<and>
   can_perform_editor_actions (example_editable_with (\<lambda>k. True) (Some 2)) (Some 2) \<and>
   \<not> can_perform_editor_actions (example_editable_with (\<lambda>k. False) (Some 2)) (Some 2)"
  using can_perform_editor_actions_cases [of "example_editable_with (\<lambda>k. True) (Some 5)" "Some 5"]
    can_perform_editor_actions_cases [of "example_editable_with (\<lambda>k. False) (Some 1)" "Some 1"]
    can_perform_editor_actions_cases [of "example_editable_with (\<lambda>k. True) (Some 2)" "Some 2"]
    can_perform_editor_actions_cases [of "example_editable_with (\<lambda>k. False) (Some 2)" "Some 2"]
  by (simp add: example_defs can_see_timeline_def has_general_editor_permissions_def
        editor_permission_def editor_permissions_def)

text \<open>
  Claim C7. \<open>can_assign_self\<close> is false when an editor is assigned and that editor is the
  user or the user cannot unassign the editor; in particular it is false for the
  assigned editor, whatever the permissions. Otherwise it is true exactly when the user
  has the editor permission of the type with \<open>editing_enabled\<close> and
  \<open>self_assign_allowed\<close> set, or has the \<open>editing_manager\<close> permission.
\<close>

theorem can_assign_self_cases:
  "(editor e \<noteq> None \<and> (editor e = u \<or> \<not> can_unassign e u) \<longrightarrow> \<not> can_assign_self e u) \<and>
   (editor e \<noteq> None \<and> editor e = u \<longrightarrow> \<not> can_assign_self e u) \<and>
   (\<not> (editor e \<noteq> None \<and> (editor e = u \<or> \<not> can_unassign e u)) \<longrightarrow>
      can_assign_self e u =
        ((can_manage (event e) u (editor_permission (etype e)) \<and>
          type_settings (event e) (etype e) ''editing_enabled'' \<and>
          type_settings (event e) (etype e) ''self_assign_allowed'') \<or>
         can_manage (event e) u (Some ''editing_manager'')))"
  by (auto simp: can_assign_self_def)

theorem can_assign_self_cases_witness:
  "editor (example_editable_with (\<lambda>k. True) (Some 2)) \<noteq> None \<and>
   editor (example_editable_with (\<lambda>k. True) (Some 2)) = Some 2 \<and>
   can_unassign (example_editable_with (\<lambda>k. True) (Some 2)) (Some 2) \<and>
   \<not> can_assign_self (example_editable_with (\<lambda>k. True) (Some 2)) (Some 2) \<and>
   editor (example_editable_with (\<lambda>k. True) None) = None \<and>
   can_assign_self (example_editable_with (\<lambda>k. True) None) (Some 2) \<and>
   \<not> can_assign_self (example_editable_with (\<lambda>k. False) None) (Some 2) \<and>
   can_assign_self (example_editable_with (\<lambda>k. False) None) (Some 1)"
  using can_assign_self_cases [of "example_editable_with (\<lambda>k. True) (Some 2)" "Some 2"]
    can_assign_self_cases [of "example_editable_with (\<lambda>k. True) None" "Some 2"]
    can_assign_self_cases [of "example_editable_with (\<lambda>k. False) None" "Some 2"]
    can_assign_self_cases [of "example_editable_with (\<lambda>k. False) None" "Some 1"]
  by (simp add: example_defs can_unassign_def editor_permission_def editor_permissions_def)

text \<open>
  Claim C8. Without \<open>anonymous_team\<close>, \<open>can_see_editor_names\<close> is true for every user
  and actor. With \<open>anonymous_team\<close>, it is true exactly when an actor is given who
  cannot see editor names (asked without a further actor), or the user has general
  editor permissions.
\<close>

theorem can_see_editor_names_cases:
  "(\<not> type_settings (event e) (etype e) ''anonymous_team'' \<longrightarrow>
      can_see_editor_names e u actor) \<and>
   (type_settings (event e) (etype e) ''anonymous_team'' \<longrightarrow>
      can_see_editor_names e u actor =
        ((actor \<noteq> None \<and> \<not> can_see_editor_names e actor None) \<or>
         has_general_editor_permissions e u))"
  by (cases actor) simp_all

theorem can_see_editor_names_cases_witness:
  "\<not> type_settings (event (example_editable_with (\<lambda>k. False) None)) paper ''anonymous_team'' \<and>
   can_see_editor_names (example_editable_with (\<lambda>k. False) None) (Some 5) None \<and>
   can_see_editor_names (example_editable_with (\<lambda>k. False) None) None (Some 1) \<and>
   type_settings (event (example_editable_with (\<lambda>k. True) None)) paper ''anonymous_team'' \<and>
   \<not> can_see_editor_names (example_editable_with (\<lambda>k. True) None) (Some 5) None \<and>
   can_see_editor_names (example_editable_with (\<lambda>k. True) None) (Some 5) (Some 4) \<and>
   \<not> can_see_editor_names (example_editable_with (\<lambda>k. True) None) (Some 5) (Some 1) \<and>
   can_see_editor_names (example_editable_with (\<lambda>k. True) None) (Some 2) (Some 1)"
  using can_see_editor_names_cases [of "example_editable_with (\<lambda>k. False) None" "Some 5" None]
    can_see_editor_names_cases [of "example_editable_with (\<lambda>k. False) None" None "Some 1"]
    can_see_editor_names_cases [of "example_editable_with (\<lambda>k. True) None" "Some 5" None]
    can_see_editor_names_cases [of "example_editable_with (\<lambda>k. True) None" "Some 5" "Some 4"]
    can_see_editor_names_cases [of "example_editable_with (\<lambda>k. True) None" "Some 5" "Some 1"]
    can_see_editor_names_cases [of "example_editable_with (\<lambda>k. True) None" "Some 2" "Some 1"]
  by (simp add: example_defs has_general_editor_permissions_def
        editor_permission_def editor_permissions_def)

text \<open>
  Claim C9. \<open>can_perform_submitter_actions\<close> equals \<open>can_submit_proceedings\<close> of the
  contribution: the guard on \<open>can_see_timeline\<close> never changes the result, since
  \<open>can_submit_proceedings\<close> is one of the alternatives of \<open>can_see_timeline\<close>.
\<close>

theorem can_perform_submitter_actions_eq:
  "can_perform_submitter_actions e u = can_submit_proceedings (contribution e) u"
  by (auto simp: can_perform_submitter_actions_def can_see_timeline_def)

theorem can_perform_submitter_actions_eq_witness:
  "can_perform_submitter_actions example_editable (Some 3) \<and>
   can_submit_proceedings (contribution example_editable) (Some 3) \<and>
   can_see_timeline example_editable (Some 4) \<and>
   \<not> can_perform_submitter_actions example_editable (Some 4) \<and>
   \<not> can_submit_proceedings (contribution example_editable) (Some 4)"
  using can_perform_submitter_actions_eq [of example_editable "Some 3"]
    can_perform_submitter_actions_eq [of example_editable "Some 4"]
  by (simp add: example_defs can_see_timeline_def)

text \<open>
  Claim C10. When an editor is assigned and a user can assign themself, the user is
  not the assigned editor and can unassign the editor.
\<close>

theorem can_assign_self_implies_can_unassign:
  assumes "editor e \<noteq> None" and "can_assign_self e u"
  shows "editor e \<noteq> u \<and> can_unassign e u"
  using assms by (auto simp: can_assign_self_def split: if_splits)

theorem can_assign_self_implies_can_unassign_witness:
  "editor (example_editable_with (\<lambda>k. False) (Some 2)) \<noteq> None \<and>
   can_assign_self (example_editable_with (\<lambda>k. False) (Some 2)) (Some 1) \<and>
   editor (example_editable_with (\<lambda>k. False) (Some 2)) \<noteq> Some 1 \<and>
   can_unassign (example_editable_with (\<lambda>k. False) (Some 2)) (Some 1)"
proof -
  let ?e = "example_editable_with (\<lambda>k. False) (Some 2)"
  have h1: "editor ?e \<noteq> None"
    by (simp add: example_defs)
  have h2: "can_assign_self ?e (Some 1)"
    by (simp add: example_defs can_assign_self_def can_unassign_def)
  from h1 h2 can_assign_self_implies_can_unassign [OF h1 h2] show ?thesis
    by simp
qed

end
